theory Spec2Isabelle
  imports Main
begin

section \<open>The host environment\<close>

text \<open>
  The library runs inside a browser. The parts of the browser that the two source files
  touch are written out as an explicit state: objects (elements, array-likes and
  \<open>String\<close> objects) and click events live in stores indexed by their identity, because
  the code mutates them in place (an \<open>onclick\<close> slot, the cancellation flag of an event)
  and the caller observes the mutation afterwards.
\<close>

type_synonym ref = nat

text \<open>
  The JavaScript values that the code inspects or returns. Numbers are restricted to
  integers; strings as property values do not occur in the places modelled.
\<close>

datatype jsval = Undefined | Null | Boolean bool | Number int

datatype error = TypeError | NotFoundError | Uncaught nat

text \<open>
  Functions that can be registered as listeners: the listener of \<open>blankshield.js\<close>, the
  listener of the second source file, a function of the embedding page (identified by a
  number, with a flag saying whether it throws), and the closure that
  \<open>addEventListener\<close> of \<open>blankshield.js\<close> builds around two listeners.
\<close>

datatype handler =
    ClickListener
  | Handler
  | Foreign nat bool
  | Wrapper handler handler

text \<open>
  What a registration function can be handed as its target, and what an indexed property
  can hold: \<open>undefined\<close>, a primitive string, or an object given by its identity.
\<close>

datatype operand = NoValue | Prim string | Ref ref

text \<open>
  An object as the code sees it: attributes read through \<open>getAttribute\<close>, the value of
  its \<open>length\<close> property, its indexed properties, the two registration capabilities that
  are probed, what has been handed to them, and the \<open>on...\<close> property slots. A
  \<open>String\<close> object carries its characters in \<open>string_data\<close>; its \<open>length\<close> and its
  indexed properties below that length come from them. \<open>inherits_String\<close> says whether
  \<open>String.prototype\<close> of the page is on the prototype chain, which is what
  \<open>instanceof String\<close> tests: it holds for a \<open>String\<close> object made by the page and fails
  for one made in another frame or window.
\<close>

record jsobject =
  attrs :: "string \<rightharpoonup> string"
  length_prop :: jsval
  indexed :: "operand list"
  string_data :: "string option"
  inherits_String :: bool
  has_addEventListener :: bool
  has_attachEvent :: bool
  native_listeners :: "(string \<times> handler \<times> bool) list"
  attached_events :: "(string \<times> handler) list"
  on_slots :: "string \<rightharpoonup> handler"

record event =
  target :: "ref option"
  srcElement :: "ref option"
  ctrlKey :: bool
  shiftKey :: bool
  metaKey :: bool
  has_preventDefault :: bool
  preventDefault_calls :: nat
  returnValue :: jsval

text \<open>
  The rest of the page: the children of \<open>document.body\<close>, the supply of identities for
  created nodes, whether a fresh iframe exposes \<open>contentDocument\<close> or
  \<open>contentWindow\<close>, the script texts handed to the engine of a frame (frame and text),
  the popup blocker, the urls given to \<open>window.open\<close>, the windows opened (url, and
  whether the opener reference is still live), and the calls received by functions of the
  embedding page (function and event argument).
\<close>

record world =
  objs :: "ref \<Rightarrow> jsobject"
  events :: "ref \<Rightarrow> event"
  window_event :: "ref option"
  body :: "ref list"
  fresh :: ref
  has_contentDocument :: bool
  has_contentWindow :: bool
  executed :: "(ref \<times> string) list"
  popup_blocked :: bool
  open_calls :: "string list"
  windows :: "(string \<times> bool) list"
  calls :: "(nat \<times> ref option) list"

text \<open>
  A call either returns a value or throws; the state reached is kept in both cases. The
  third outcome stands for a call during which a frame was given statements that are not
  the library's own, or a text that is not read here: from that point on the page does
  what those statements say, and nothing is stated about it.
\<close>

datatype outcome = Returned jsval world | Threw error world | Undetermined world

definition getAttribute :: "world \<Rightarrow> ref \<Rightarrow> string \<Rightarrow> string option" where
  "getAttribute w r name = attrs (objs w r) name"

definition update_obj :: "ref \<Rightarrow> (jsobject \<Rightarrow> jsobject) \<Rightarrow> world \<Rightarrow> world" where
  "update_obj r f w = w\<lparr>objs := (objs w)(r := f (objs w r))\<rparr>"

definition update_event :: "ref \<Rightarrow> (event \<Rightarrow> event) \<Rightarrow> world \<Rightarrow> world" where
  "update_event e f w = w\<lparr>events := (events w)(e := f (events w e))\<rparr>"

subsection \<open>Opening windows\<close>

definition window_open :: "string \<Rightarrow> world \<Rightarrow> ref option \<times> world" where
  "window_open url w =
     (let w1 = w\<lparr>open_calls := open_calls w @ [url]\<rparr>
      in if popup_blocked w then (None, w1)
         else (Some (length (windows w)), w1\<lparr>windows := windows w @ [(url, True)]\<rparr>))"

definition set_opener_null :: "ref \<Rightarrow> world \<Rightarrow> world" where
  "set_opener_null c w =
     (if c < length (windows w)
      then w\<lparr>windows := (windows w)[c := (fst (windows w ! c), False)]\<rparr> else w)"

section \<open>Reading a script\<close>

text \<open>
  The text that \<open>iframeOpen\<close> hands to a frame is read by the frame's script engine. The
  reader below follows the grammar of ECMAScript on a fragment of it: white space, line
  comments, identifiers, the punctuators \<open>.\<close> \<open>=\<close> \<open>;\<close> \<open>(\<close> \<open>)\<close>, and string literals
  in double quotes without escape sequences. Characters are code units below 256. A
  reading is either the tokens (the statements), or a syntax error, which makes the engine
  reject the script as a whole, or nothing, for a text outside the fragment. Inside a
  string literal an unescaped double quote ends the literal, and a line terminator or the
  end of the text is a syntax error.
\<close>

datatype 'a reading = Read 'a | SyntaxError | Unread

datatype token = Ident string | StrLit string | Punct char

datatype mode = Code | InIdent string | InStr string | Slash | LineComment

definition double_quote :: char where
  "double_quote = CHR 0x22"

definition backslash :: char where
  "backslash = CHR 0x5C"

definition line_terminator :: "char \<Rightarrow> bool" where
  "line_terminator c = (c = CHR 0x0A \<or> c = CHR 0x0D)"

definition white_space :: "char \<Rightarrow> bool" where
  "white_space c = (c = CHR '' '' \<or> c = CHR 0x09)"

definition ident_start :: "char \<Rightarrow> bool" where
  "ident_start c =
     (let n = (of_char c :: nat)
      in (97 \<le> n \<and> n \<le> 122) \<or> (65 \<le> n \<and> n \<le> 90) \<or> c = CHR ''_'' \<or> c = CHR ''$'')"

definition ident_char :: "char \<Rightarrow> bool" where
  "ident_char c = (ident_start c \<or> (let n = (of_char c :: nat) in 48 \<le> n \<and> n \<le> 57))"

definition punctuator :: "char \<Rightarrow> bool" where
  "punctuator c =
     (c = CHR ''.'' \<or> c = CHR ''='' \<or> c = CHR '';'' \<or> c = CHR ''('' \<or> c = CHR '')'')"

definition emit :: "token \<Rightarrow> token list reading \<Rightarrow> token list reading" where
  "emit t r = (case r of Read ts \<Rightarrow> Read (t # ts) | SyntaxError \<Rightarrow> SyntaxError | Unread \<Rightarrow> Unread)"

fun lexer :: "mode \<Rightarrow> string \<Rightarrow> token list reading" where
  "lexer Code [] = Read []"
| "lexer (InIdent acc) [] = Read [Ident acc]"
| "lexer (InStr acc) [] = SyntaxError"
| "lexer Slash [] = Unread"
| "lexer LineComment [] = Read []"
| "lexer Code (c # cs) =
     (if c = double_quote then lexer (InStr []) cs
      else if white_space c \<or> line_terminator c then lexer Code cs
      else if ident_start c then lexer (InIdent [c]) cs
      else if c = CHR ''/'' then lexer Slash cs
      else if punctuator c then emit (Punct c) (lexer Code cs)
      else Unread)"
| "lexer (InIdent acc) (c # cs) =
     (if ident_char c then lexer (InIdent (acc @ [c])) cs
      else emit (Ident acc)
             (if c = double_quote then lexer (InStr []) cs
              else if white_space c \<or> line_terminator c then lexer Code cs
              else if c = CHR ''/'' then lexer Slash cs
              else if punctuator c then emit (Punct c) (lexer Code cs)
              else Unread))"
| "lexer (InStr acc) (c # cs) =
     (if c = double_quote then emit (StrLit acc) (lexer Code cs)
      else if line_terminator c then SyntaxError
      else if c = backslash then Unread
      else lexer (InStr (acc @ [c])) cs)"
| "lexer Slash (c # cs) = (if c = CHR ''/'' then lexer LineComment cs else Unread)"
| "lexer LineComment (c # cs) =
     (if line_terminator c then lexer Code cs else lexer LineComment cs)"

text \<open>
  The statements that are read: \<open>a.b = null\<close>, \<open>var x = a.b("...")\<close> and the call
  \<open>a.b("...")\<close> as a statement of its own, separated by semicolons, with names that are
  not reserved words. Every other sequence of tokens is left unread.
\<close>

datatype stmt =
    AssignNull "string list"
  | VarCall string "string list" string
  | ExprCall "string list" string

definition reserved_word :: "string \<Rightarrow> bool" where
  "reserved_word x =
     (x \<in> set [''break'', ''case'', ''catch'', ''continue'', ''debugger'', ''default'',
               ''delete'', ''do'', ''else'', ''finally'', ''for'', ''function'', ''if'', ''in'',
               ''instanceof'', ''new'', ''return'', ''switch'', ''this'', ''throw'', ''try'',
               ''typeof'', ''var'', ''void'', ''while'', ''with'', ''null'', ''true'', ''false'',
               ''class'', ''const'', ''enum'', ''export'', ''extends'', ''import'', ''super'',
               ''implements'', ''interface'', ''let'', ''package'', ''private'', ''protected'',
               ''public'', ''static'', ''yield'', ''await'', ''async''])"

fun split_stmts :: "token list \<Rightarrow> token list list" where
  "split_stmts [] = [[]]"
| "split_stmts (t # ts) =
     (if t = Punct CHR '';'' then [] # split_stmts ts
      else (case split_stmts ts of g # gs \<Rightarrow> (t # g) # gs | [] \<Rightarrow> [[t]]))"

fun path_of :: "token list \<Rightarrow> (string list \<times> token list) option" where
  "path_of (Ident x # Punct p # ts) =
     (if reserved_word x then None
      else if p = CHR ''.''
      then (case path_of ts of Some (xs, r) \<Rightarrow> Some (x # xs, r) | None \<Rightarrow> None)
      else Some ([x], Punct p # ts))"
| "path_of (Ident x # ts) = (if reserved_word x then None else Some ([x], ts))"
| "path_of ts = None"

fun call_args :: "token list \<Rightarrow> string option" where
  "call_args [Punct l, StrLit s, Punct r] =
     (if l = CHR ''('' \<and> r = CHR '')'' then Some s else None)"
| "call_args ts = None"

fun null_rhs :: "token list \<Rightarrow> bool" where
  "null_rhs [Punct e, Ident n] = (e = CHR ''='' \<and> n = ''null'')"
| "null_rhs ts = False"

definition parse_stmt :: "token list \<Rightarrow> stmt option" where
  "parse_stmt ts =
     (case ts of
        Ident k # rest \<Rightarrow>
          if k = ''var''
          then (case rest of
                  Ident x # Punct e # rest' \<Rightarrow>
                    if e = CHR ''='' \<and> \<not> reserved_word x
                    then (case path_of rest' of
                            Some (p, r) \<Rightarrow> map_option (VarCall x p) (call_args r)
                          | None \<Rightarrow> None)
                    else None
                | _ \<Rightarrow> None)
          else (case path_of ts of
                  Some (p, r) \<Rightarrow>
                    if null_rhs r then Some (AssignNull p) else map_option (ExprCall p) (call_args r)
                | None \<Rightarrow> None)
      | _ \<Rightarrow> None)"

definition parse_script :: "string \<Rightarrow> stmt list reading" where
  "parse_script text =
     (case lexer Code text of
        Read ts \<Rightarrow>
          (case those (map parse_stmt (filter (\<lambda>g. g \<noteq> []) (split_stmts ts))) of
             Some ss \<Rightarrow> Read ss
           | None \<Rightarrow> Unread)
      | SyntaxError \<Rightarrow> SyntaxError
      | Unread \<Rightarrow> Unread)"

text \<open>
  The statements of the library's own script for a url, and the url for which a list of
  statements is that script.
\<close>

definition library_statements :: "string \<Rightarrow> stmt list" where
  "library_statements u =
     [AssignNull [''window'', ''parent''], AssignNull [''window'', ''top''],
      AssignNull [''window'', ''frameElement''],
      VarCall ''child'' [''window'', ''open''] u,
      AssignNull [''child'', ''opener'']]"

definition library_script :: "stmt list \<Rightarrow> string option" where
  "library_script ss =
     (case ss of
        s1 # s2 # s3 # VarCall x f u # rest \<Rightarrow>
          if ss = library_statements u then Some u else None
      | _ \<Rightarrow> None)"

section \<open>Frames and the document tree\<close>

definition createElement :: "world \<Rightarrow> ref \<times> world" where
  "createElement w = (fresh w, w\<lparr>fresh := Suc (fresh w)\<rparr>)"

definition appendChild_body :: "ref \<Rightarrow> world \<Rightarrow> world" where
  "appendChild_body n w = w\<lparr>body := body w @ [n]\<rparr>"

text \<open>\<open>removeChild\<close> throws for a node that is not a child.\<close>

definition removeChild_body :: "ref \<Rightarrow> world \<Rightarrow> outcome" where
  "removeChild_body n w =
     (if n \<in> set (body w) then Returned Undefined (w\<lparr>body := remove1 n (body w)\<rparr>)
      else Threw NotFoundError w)"

text \<open>
  A script appended to the document of a frame is run at once, and only when the frame is
  in the document tree: a frame outside the tree has no browsing context. The engine
  rejects a text with a syntax error without running any of it. The library's own
  statements set three references of the frame's window to \<open>null\<close>, which changes nothing
  on the page, open the window, and clear its \<open>opener\<close>; when the popup is blocked the
  last statement throws inside the frame, which the host reports and does not pass on to the
  code that appended the script. For anything else the outcome is undetermined.
\<close>

definition appendChild_script :: "ref \<Rightarrow> string \<Rightarrow> world \<Rightarrow> outcome" where
  "appendChild_script frame text w =
     (if frame \<notin> set (body w) then Returned Undefined w
      else
        let w1 = w\<lparr>executed := executed w @ [(frame, text)]\<rparr> in
        (case parse_script text of
           SyntaxError \<Rightarrow> Returned Undefined w1
         | Unread \<Rightarrow> Undetermined w1
         | Read ss \<Rightarrow>
             (case library_script ss of
                None \<Rightarrow> Undetermined w1
              | Some u \<Rightarrow>
                  (case window_open u w1 of
                     (None, w2) \<Rightarrow> Returned Undefined w2
                   | (Some child, w2) \<Rightarrow> Returned Undefined (set_opener_null child w2)))))"

section \<open>blankshield.js\<close>

subsection \<open>iframeOpen\<close>

definition script_text :: "string \<Rightarrow> string" where
  "script_text url =
     ''window.parent = null; window.top = null;'' @
     ''window.frameElement = null; var child = window.open('' @ [CHR 0x22] @ url @ [CHR 0x22] @ '');'' @
     ''child.opener = null''"

text \<open>
  The frame is created, appended to \<open>document.body\<close>, asked for its document
  (\<open>contentDocument\<close>, or else \<open>contentWindow.document\<close>, which throws when the host has
  neither), given the script, and removed. That the frame is hidden and the \<open>type\<close> of the
  script element change nothing in what follows and are left out.
\<close>

definition iframeOpen :: "string \<Rightarrow> world \<Rightarrow> outcome" where
  "iframeOpen url w =
     (case createElement w of (iframe, w1) \<Rightarrow>
        let w2 = appendChild_body iframe w1 in
        if \<not> has_contentDocument w2 \<and> \<not> has_contentWindow w2 then Threw TypeError w2
        else
          (case appendChild_script iframe (script_text url) w2 of
             Threw err w3 \<Rightarrow> Threw err w3
           | Undetermined w3 \<Rightarrow> Undetermined w3
           | Returned _ w3 \<Rightarrow> removeChild_body iframe w3))"

subsection \<open>clickListener\<close>

definition cancel_default :: "ref \<Rightarrow> world \<Rightarrow> world" where
  "cancel_default e w =
     (if has_preventDefault (events w e)
      then update_event e (\<lambda>ev. ev\<lparr>preventDefault_calls := Suc (preventDefault_calls ev)\<rparr>) w
      else update_event e (\<lambda>ev. ev\<lparr>returnValue := Boolean False\<rparr>) w)"

definition clickListener :: "ref option \<Rightarrow> world \<Rightarrow> outcome" where
  "clickListener e0 w =
     (case (case e0 of Some e \<Rightarrow> Some e | None \<Rightarrow> window_event w) of
        None \<Rightarrow> Threw TypeError w
      | Some e \<Rightarrow>
        (case (case target (events w e) of Some t \<Rightarrow> Some t | None \<Rightarrow> srcElement (events w e)) of
           None \<Rightarrow> Threw TypeError w
         | Some t \<Rightarrow>
           (case getAttribute w t ''href'' of
              None \<Rightarrow> Returned Undefined w
            | Some href \<Rightarrow>
                if href = [] then Returned Undefined w
                else
                  let usedModifier =
                        (ctrlKey (events w e) \<or> shiftKey (events w e) \<or> metaKey (events w e))
                  in
                  if \<not> usedModifier \<and> getAttribute w t ''target'' \<noteq> Some ''_blank''
                  then Returned Undefined w
                  else
                    (case iframeOpen href w of
                       Threw err w1 \<Rightarrow> Threw err w1
                     | Undetermined w1 \<Rightarrow> Undetermined w1
                     | Returned _ w1 \<Rightarrow> Returned (Boolean False) (cancel_default e w1)))))"

subsection \<open>addEventListener\<close>

text \<open>
  On \<open>undefined\<close> the first property read throws. On a primitive string the three
  property reads give \<open>undefined\<close> (nothing of these names is taken to be on
  \<open>String.prototype\<close>) and the assignment to \<open>target[onType]\<close> throws, the file being
  strict code.
\<close>

definition addEventListener :: "operand \<Rightarrow> string \<Rightarrow> handler \<Rightarrow> world \<Rightarrow> outcome" where
  "addEventListener tgt type listener w =
     (case tgt of
        NoValue \<Rightarrow> Threw TypeError w
      | Prim s \<Rightarrow> Threw TypeError w
      | Ref r \<Rightarrow>
          if has_addEventListener (objs w r)
          then Returned Undefined
                 (update_obj r (\<lambda>ob. ob\<lparr>native_listeners :=
                                    native_listeners ob @ [(type, listener, False)]\<rparr>) w)
          else
            let onType = ''on'' @ type in
            if has_attachEvent (objs w r)
            then Returned Undefined
                   (update_obj r (\<lambda>ob. ob\<lparr>attached_events :=
                                      attached_events ob @ [(onType, listener)]\<rparr>) w)
            else
              (case on_slots (objs w r) onType of
                 Some prevListener \<Rightarrow>
                   Returned Undefined
                     (update_obj r (\<lambda>ob. ob\<lparr>on_slots :=
                                        (on_slots ob)(onType \<mapsto> Wrapper listener prevListener)\<rparr>) w)
               | None \<Rightarrow>
                   Returned Undefined
                     (update_obj r (\<lambda>ob. ob\<lparr>on_slots := (on_slots ob)(onType \<mapsto> listener)\<rparr>) w)))"

subsection \<open>blankshield\<close>

text \<open>
  What can be handed to \<open>blankshield\<close>: a primitive string, or an object (an element, an
  array, a node list, a \<open>String\<close> object), given by its identity in the store.
\<close>

datatype argument = PrimString string | Object ref

definition length_of :: "argument \<Rightarrow> world \<Rightarrow> jsval" where
  "length_of tgt w =
     (case tgt of
        PrimString s \<Rightarrow> Number (int (length s))
      | Object r \<Rightarrow>
          (case string_data (objs w r) of
             Some s \<Rightarrow> Number (int (length s))
           | None \<Rightarrow> length_prop (objs w r)))"

definition typeof_string :: "argument \<Rightarrow> bool" where
  "typeof_string tgt = (case tgt of PrimString s \<Rightarrow> True | Object r \<Rightarrow> False)"

definition instanceof_String :: "argument \<Rightarrow> world \<Rightarrow> bool" where
  "instanceof_String tgt w =
     (case tgt of PrimString s \<Rightarrow> False | Object r \<Rightarrow> inherits_String (objs w r))"

definition operand_of :: "argument \<Rightarrow> operand" where
  "operand_of tgt = (case tgt of PrimString s \<Rightarrow> Prim s | Object r \<Rightarrow> Ref r)"

text \<open>\<open>i < v\<close> for a loop counter \<open>i\<close>, with the conversion of \<open>v\<close> to a number.\<close>

definition js_less :: "nat \<Rightarrow> jsval \<Rightarrow> bool" where
  "js_less i v =
     (case v of
        Number n \<Rightarrow> int i < n
      | Boolean b \<Rightarrow> int i < (if b then 1 else 0)
      | Null \<Rightarrow> int i < 0
      | Undefined \<Rightarrow> False)"

text \<open>
  \<open>target[i]\<close>: a character of a string, as a primitive string of length one; otherwise
  the indexed property, where an index that is not there reads as \<open>undefined\<close>.
\<close>

definition index_prop :: "jsobject \<Rightarrow> nat \<Rightarrow> operand" where
  "index_prop ob i = (if i < length (indexed ob) then indexed ob ! i else NoValue)"

definition item_at :: "argument \<Rightarrow> nat \<Rightarrow> world \<Rightarrow> operand" where
  "item_at tgt i w =
     (case tgt of
        PrimString s \<Rightarrow> (if i < length s then Prim [s ! i] else NoValue)
      | Object r \<Rightarrow>
          (case string_data (objs w r) of
             Some s \<Rightarrow> (if i < length s then Prim [s ! i] else index_prop (objs w r) i)
           | None \<Rightarrow> index_prop (objs w r) i))"

definition loop_bound :: "jsval \<Rightarrow> nat" where
  "loop_bound v = (case v of Number n \<Rightarrow> nat n | Boolean b \<Rightarrow> (if b then 1 else 0) | _ \<Rightarrow> 0)"

lemma js_less_bound: "js_less i v \<Longrightarrow> i < loop_bound v"
  by (cases v) (auto simp: js_less_def loop_bound_def split: if_splits)

lemma addEventListener_length_of:
  "addEventListener tgt type listener w = Returned v w1 \<Longrightarrow> length_of a w1 = length_of a w"
  by (cases a)
     (auto simp: addEventListener_def update_obj_def length_of_def Let_def
        split: operand.splits option.splits if_splits)

function blankshield_loop :: "argument \<Rightarrow> nat \<Rightarrow> world \<Rightarrow> outcome" where
  "blankshield_loop tgt i w =
     (if js_less i (length_of tgt w)
      then (case addEventListener (item_at tgt i w) ''click'' ClickListener w of
              Threw err w1 \<Rightarrow> Threw err w1
            | Undetermined w1 \<Rightarrow> Undetermined w1
            | Returned _ w1 \<Rightarrow> blankshield_loop tgt (Suc i) w1)
      else Returned Undefined w)"
  by pat_completeness auto
termination
proof (relation "measure (\<lambda>(tgt, i, w). loop_bound (length_of tgt w) - i)")
  show "wf (measure (\<lambda>(tgt, i, w). loop_bound (length_of tgt w) - i))"
    by simp
next
  fix tgt i w v w1
  assume less: "js_less i (length_of tgt w)"
    and reg: "addEventListener (item_at tgt i w) ''click'' ClickListener w = Returned v w1"
  from reg have "length_of tgt w1 = length_of tgt w"
    by (rule addEventListener_length_of)
  with js_less_bound [OF less]
  show "((tgt, Suc i, w1), (tgt, i, w))
          \<in> measure (\<lambda>(tgt, i, w). loop_bound (length_of tgt w) - i)"
    by simp
qed

definition blankshield :: "argument \<Rightarrow> world \<Rightarrow> outcome" where
  "blankshield tgt w =
     (if length_of tgt w = Undefined
      then addEventListener (operand_of tgt) ''click'' ClickListener w
      else if \<not> typeof_string tgt \<and> \<not> instanceof_String tgt w
      then blankshield_loop tgt 0 w
      else Returned Undefined w)"

section \<open>The second source file: the variant that opens the window directly\<close>

definition handler :: "ref option \<Rightarrow> world \<Rightarrow> outcome" where
  "handler e0 w =
     (case e0 of
        None \<Rightarrow> Threw TypeError w
      | Some e \<Rightarrow>
        (case target (events w e) of
           None \<Rightarrow> Threw TypeError w
         | Some t \<Rightarrow>
           (case getAttribute w t ''href'' of
              None \<Rightarrow> Returned Undefined w
            | Some href \<Rightarrow>
                if href = [] then Returned Undefined w
                else
                  let usedModifier =
                        (ctrlKey (events w e) \<or> shiftKey (events w e) \<or> metaKey (events w e))
                  in
                  if \<not> usedModifier \<and> getAttribute w t ''target'' \<noteq> Some ''_blank''
                  then Returned Undefined w
                  else
                    (case window_open href w of
                       (None, w1) \<Rightarrow> Threw TypeError w1
                     | (Some child, w1) \<Rightarrow>
                         let w2 = set_opener_null child w1 in
                         if has_preventDefault (events w2 e)
                         then Returned Undefined
                                (update_event e
                                   (\<lambda>ev. ev\<lparr>preventDefault_calls := Suc (preventDefault_calls ev)\<rparr>) w2)
                         else Threw TypeError w2))))"

definition addEvent :: "operand \<Rightarrow> string \<Rightarrow> handler \<Rightarrow> world \<Rightarrow> outcome" where
  "addEvent tgt type listener w =
     (case tgt of
        NoValue \<Rightarrow> Threw TypeError w
      | Prim s \<Rightarrow> Threw TypeError w
      | Ref r \<Rightarrow>
          if has_addEventListener (objs w r)
          then Returned Undefined
                 (update_obj r (\<lambda>ob. ob\<lparr>native_listeners :=
                                    native_listeners ob @ [(type, listener, False)]\<rparr>) w)
          else if has_attachEvent (objs w r)
          then Returned Undefined
                 (update_obj r (\<lambda>ob. ob\<lparr>attached_events :=
                                    attached_events ob @ [(''on'' @ type, listener)]\<rparr>) w)
          else Returned Undefined
                 (update_obj r (\<lambda>ob. ob\<lparr>on_slots := (on_slots ob)(''on'' @ type \<mapsto> listener)\<rparr>) w))"

lemma addEvent_length_of:
  "addEvent tgt type listener w = Returned v w1 \<Longrightarrow> length_of a w1 = length_of a w"
  by (cases a)
     (auto simp: addEvent_def update_obj_def length_of_def
        split: operand.splits option.splits if_splits)

function blankshield_direct_loop :: "argument \<Rightarrow> nat \<Rightarrow> world \<Rightarrow> outcome" where
  "blankshield_direct_loop tgt i w =
     (if js_less i (length_of tgt w)
      then (case addEvent (item_at tgt i w) ''click'' Handler w of
              Threw err w1 \<Rightarrow> Threw err w1
            | Undetermined w1 \<Rightarrow> Undetermined w1
            | Returned _ w1 \<Rightarrow> blankshield_direct_loop tgt (Suc i) w1)
      else Returned Undefined w)"
  by pat_completeness auto
termination
proof (relation "measure (\<lambda>(tgt, i, w). loop_bound (length_of tgt w) - i)")
  show "wf (measure (\<lambda>(tgt, i, w). loop_bound (length_of tgt w) - i))"
    by simp
next
  fix tgt i w v w1
  assume less: "js_less i (length_of tgt w)"
    and reg: "addEvent (item_at tgt i w) ''click'' Handler w = Returned v w1"
  from reg have "length_of tgt w1 = length_of tgt w"
    by (rule addEvent_length_of)
  with js_less_bound [OF less]
  show "((tgt, Suc i, w1), (tgt, i, w))
          \<in> measure (\<lambda>(tgt, i, w). loop_bound (length_of tgt w) - i)"
    by simp
qed

definition blankshield_direct :: "argument \<Rightarrow> world \<Rightarrow> outcome" where
  "blankshield_direct tgt w =
     (if length_of tgt w = Undefined
      then addEvent (operand_of tgt) ''click'' Handler w
      else if \<not> typeof_string tgt \<and> \<not> instanceof_String tgt w
      then blankshield_direct_loop tgt 0 w
      else Returned Undefined w)"

section \<open>Calling a registered function\<close>

text \<open>
  The call of a listener with an optional event argument. The closure built by
  \<open>addEventListener\<close> of \<open>blankshield.js\<close> calls the new listener and then the previous
  one, both without argument, and returns nothing; an exception of the first ends it.
\<close>

fun invoke :: "handler \<Rightarrow> ref option \<Rightarrow> world \<Rightarrow> outcome" where
  "invoke ClickListener arg w = clickListener arg w"
| "invoke Handler arg w = handler arg w"
| "invoke (Foreign n throws) arg w =
     (let w1 = w\<lparr>calls := calls w @ [(n, arg)]\<rparr>
      in if throws then Threw (Uncaught n) w1 else Returned Undefined w1)"
| "invoke (Wrapper listener prevListener) arg w =
     (case invoke listener None w of
        Threw err w1 \<Rightarrow> Threw err w1
      | Undetermined w1 \<Rightarrow> Undetermined w1
      | Returned _ w1 \<Rightarrow>
          (case invoke prevListener None w1 of
             Threw err w2 \<Rightarrow> Threw err w2
           | Undetermined w2 \<Rightarrow> Undetermined w2
           | Returned _ w2 \<Rightarrow> Returned Undefined w2))"

text \<open>
  A click that reaches an element whose only registration is the \<open>onclick\<close> property:
  the host calls the function stored there with the event.
\<close>

definition click_slot :: "ref \<Rightarrow> ref \<Rightarrow> world \<Rightarrow> outcome" where
  "click_slot r e w =
     (case on_slots (objs w r) ''onclick'' of
        None \<Rightarrow> Returned Undefined w
      | Some h \<Rightarrow> invoke h (Some e) w)"

section \<open>Observations on a state\<close>

fun world_of :: "outcome \<Rightarrow> world" where
  "world_of (Returned v w) = w"
| "world_of (Threw err w) = w"
| "world_of (Undetermined w) = w"

fun undetermined :: "outcome \<Rightarrow> bool" where
  "undetermined (Undetermined w) = True"
| "undetermined (Returned v w) = False"
| "undetermined (Threw err w) = False"

text \<open>
  How often a function has been registered for clicks on an object: through the native
  registration, through \<open>attachEvent\<close>, and in the \<open>onclick\<close> slot, where a closure counts
  for the functions it calls.
\<close>

fun occurrences :: "handler \<Rightarrow> handler \<Rightarrow> nat" where
  "occurrences h (Wrapper a b) = (if h = Wrapper a b then 1 else occurrences h a + occurrences h b)"
| "occurrences h g = (if h = g then 1 else 0)"

definition registrations :: "jsobject \<Rightarrow> handler \<Rightarrow> nat" where
  "registrations ob h =
     length (filter (\<lambda>(type, l, capture). type = ''click'' \<and> l = h) (native_listeners ob))
     + length (filter (\<lambda>(type, l). type = ''onclick'' \<and> l = h) (attached_events ob))
     + (case on_slots ob ''onclick'' of None \<Rightarrow> 0 | Some g \<Rightarrow> occurrences h g)"

text \<open>The registrations that do not sit in the \<open>onclick\<close> slot.\<close>

definition interface_registrations :: "jsobject \<Rightarrow> handler \<Rightarrow> nat" where
  "interface_registrations ob h =
     length (filter (\<lambda>(type, l, capture). type = ''click'' \<and> l = h) (native_listeners ob))
     + length (filter (\<lambda>(type, l). type = ''onclick'' \<and> l = h) (attached_events ob))"

definition is_number :: "jsval \<Rightarrow> bool" where
  "is_number v = (case v of Number n \<Rightarrow> True | _ \<Rightarrow> False)"

text \<open>A url that is its own string literal: no double quote, backslash or line terminator.\<close>

definition plain_url :: "string \<Rightarrow> bool" where
  "plain_url url =
     list_all (\<lambda>c. c \<noteq> double_quote \<and> c \<noteq> backslash \<and> \<not> line_terminator c) url"

section \<open>Example pages\<close>

text \<open>
  A small page used to evaluate the definitions: object \<open>0\<close> is an anchor with
  \<open>href="http://example.com/"\<close> and \<open>target="_blank"\<close>, every other object is an element
  without attributes; every event is a plain click on the anchor. Popups are allowed.
\<close>

definition plain_element :: jsobject where
  "plain_element =
     \<lparr>attrs = Map.empty, length_prop = Undefined, indexed = [],
      string_data = None, inherits_String = False,
      has_addEventListener = True, has_attachEvent = False,
      native_listeners = [], attached_events = [], on_slots = Map.empty\<rparr>"

definition blank_anchor :: jsobject where
  "blank_anchor =
     plain_element\<lparr>attrs := [''href'' \<mapsto> ''http://example.com/'', ''target'' \<mapsto> ''_blank'']\<rparr>"

definition plain_click :: event where
  "plain_click =
     \<lparr>target = Some 0, srcElement = None, ctrlKey = False, shiftKey = False, metaKey = False,
      has_preventDefault = True, preventDefault_calls = 0, returnValue = Undefined\<rparr>"

definition page :: world where
  "page =
     \<lparr>objs = (\<lambda>r. plain_element)(0 := blank_anchor), events = (\<lambda>e. plain_click),
      window_event = None, body = [], fresh = 0,
      has_contentDocument = True, has_contentWindow = True, executed = [],
      popup_blocked = False, open_calls = [], windows = [], calls = []\<rparr>"

text \<open>The same page behind a popup blocker.\<close>

definition blocked_page :: world where
  "blocked_page = page\<lparr>popup_blocked := True\<rparr>"

text \<open>
  Behind a popup blocker, with object \<open>1\<close> a link without \<open>target\<close> and event \<open>1\<close> a
  click on it with the control key held.
\<close>

definition ctrl_click :: event where
  "ctrl_click = plain_click\<lparr>target := Some 1, ctrlKey := True\<rparr>"

definition plain_link :: jsobject where
  "plain_link = plain_element\<lparr>attrs := [''href'' \<mapsto> ''http://example.org/a'']\<rparr>"

definition blocked_ctrl_page :: world where
  "blocked_ctrl_page =
     page\<lparr>objs := (objs page)(1 := plain_link), events := (events page)(1 := ctrl_click),
          popup_blocked := True\<rparr>"

text \<open>
  Object \<open>1\<close> is an object with neither registration interface whose \<open>onclick\<close> property
  already holds function \<open>7\<close> of the page; the click on the anchor is also the global event.
\<close>

definition legacy_element :: jsobject where
  "legacy_element =
     plain_element\<lparr>has_addEventListener := False, on_slots := [''onclick'' \<mapsto> Foreign 7 False]\<rparr>"

definition legacy_page :: world where
  "legacy_page = page\<lparr>objs := (objs page)(1 := legacy_element), window_event := Some 0\<rparr>"

text \<open>
  Event \<open>1\<close> is a click on the anchor as an old Internet Explorer delivers it (the element
  in \<open>srcElement\<close>, no \<open>preventDefault\<close>); event \<open>2\<close> has a \<open>target\<close> but no
  \<open>preventDefault\<close>.
\<close>

definition legacy_click :: event where
  "legacy_click = plain_click\<lparr>target := None, srcElement := Some 0, has_preventDefault := False\<rparr>"

definition no_preventDefault_click :: event where
  "no_preventDefault_click = plain_click\<lparr>has_preventDefault := False\<rparr>"

definition legacy_event_page :: world where
  "legacy_event_page =
     page\<lparr>events := (events page)(1 := legacy_click, 2 := no_preventDefault_click)\<rparr>"

text \<open>The anchor has been given a \<open>length\<close> property whose value is \<open>null\<close>.\<close>

definition null_length_page :: world where
  "null_length_page = page\<lparr>objs := (objs page)(0 := blank_anchor\<lparr>length_prop := Null\<rparr>)\<rparr>"

text \<open>Event \<open>1\<close> is a click that lands on object \<open>5\<close>, an element without attributes.\<close>

definition nested_page :: world where
  "nested_page = page\<lparr>events := (events page)(1 := plain_click\<lparr>target := Some 5\<rparr>)\<rparr>"

text \<open>Object \<open>9\<close> is an array of the anchor and element \<open>1\<close>.\<close>

definition array_page :: world where
  "array_page =
     page\<lparr>objs := (objs page)
            (9 := plain_element\<lparr>length_prop := Number 2, indexed := [Ref 0, Ref 1],
                                 has_addEventListener := False\<rparr>)\<rparr>"

text \<open>
  Object \<open>3\<close> is the \<open>String\<close> object of the characters \<open>ab\<close>, once made by the page itself
  and once made in another frame.
\<close>

definition string_object :: jsobject where
  "string_object =
     plain_element\<lparr>has_addEventListener := False, string_data := Some ''ab'',
                    inherits_String := True\<rparr>"

definition own_string_page :: world where
  "own_string_page = page\<lparr>objs := (objs page)(3 := string_object)\<rparr>"

definition other_realm_string_page :: world where
  "other_realm_string_page =
     page\<lparr>objs := (objs page)(3 := string_object\<lparr>inherits_String := False\<rparr>)\<rparr>"

text \<open>A host that gives a new frame neither \<open>contentDocument\<close> nor \<open>contentWindow\<close>.\<close>

definition no_frame_document_page :: world where
  "no_frame_document_page = page\<lparr>has_contentDocument := False, has_contentWindow := False\<rparr>"

text \<open>
  Three \<open>href\<close> values with a double quote in them, and pages whose anchor has the first
  and the second.
\<close>

definition quote_url :: string where
  "quote_url = ''http://a/'' @ [double_quote] @ '');alert('' @ [double_quote] @ ''x''"

definition query_quote_url :: string where
  "query_quote_url = ''http://example.com/?q='' @ [double_quote] @ ''a''"

definition comment_url :: string where
  "comment_url = ''http://a/'' @ [double_quote] @ '');//''"

definition quote_page :: world where
  "quote_page =
     page\<lparr>objs := (objs page)(0 := blank_anchor\<lparr>attrs := [''href'' \<mapsto> quote_url, ''target'' \<mapsto> ''_blank'']\<rparr>)\<rparr>"

definition query_quote_page :: world where
  "query_quote_page =
     page\<lparr>objs := (objs page)(0 := blank_anchor\<lparr>attrs := [''href'' \<mapsto> query_quote_url, ''target'' \<mapsto> ''_blank'']\<rparr>)\<rparr>"

section \<open>The script of iframeOpen\<close>

lemma lexer_InStr_plain:
  "plain_url url \<Longrightarrow>
     lexer (InStr acc) (url @ double_quote # rest) = emit (StrLit (acc @ url)) (lexer Code rest)"
  by (induction url arbitrary: acc) (simp_all add: plain_url_def)

lemma script_text_split:
  "script_text url =
     ''window.parent = null; window.top = null;window.frameElement = null; var child = window.open(''
       @ double_quote # url @ double_quote # '');child.opener = null''"
  by (simp add: script_text_def double_quote_def)

lemma lexer_prefix:
  "lexer Code
     (''window.parent = null; window.top = null;window.frameElement = null; var child = window.open(''
        @ double_quote # xs) =
     (case lexer (InStr []) xs of
        Read ts \<Rightarrow>
          Read ([Ident ''window'', Punct CHR ''.'', Ident ''parent'', Punct CHR ''='', Ident ''null'',
                 Punct CHR '';'',
                 Ident ''window'', Punct CHR ''.'', Ident ''top'', Punct CHR ''='', Ident ''null'',
                 Punct CHR '';'',
                 Ident ''window'', Punct CHR ''.'', Ident ''frameElement'', Punct CHR ''='',
                 Ident ''null'', Punct CHR '';'',
                 Ident ''var'', Ident ''child'', Punct CHR ''='', Ident ''window'', Punct CHR ''.'',
                 Ident ''open'', Punct CHR ''(''] @ ts)
      | SyntaxError \<Rightarrow> SyntaxError
      | Unread \<Rightarrow> Unread)"
  by (cases "lexer (InStr []) xs")
     (simp_all add: double_quote_def white_space_def line_terminator_def ident_start_def
        ident_char_def punctuator_def emit_def)

lemma lexer_suffix:
  "lexer Code '');child.opener = null'' =
     Read [Punct CHR '')'', Punct CHR '';'', Ident ''child'', Punct CHR ''.'', Ident ''opener'',
           Punct CHR ''='', Ident ''null'']"
  by (simp add: double_quote_def white_space_def line_terminator_def ident_start_def
        ident_char_def punctuator_def emit_def)

lemma script_text_tokens:
  assumes "plain_url url"
  shows "lexer Code (script_text url) =
     Read [Ident ''window'', Punct CHR ''.'', Ident ''parent'', Punct CHR ''='', Ident ''null'',
           Punct CHR '';'',
           Ident ''window'', Punct CHR ''.'', Ident ''top'', Punct CHR ''='', Ident ''null'',
           Punct CHR '';'',
           Ident ''window'', Punct CHR ''.'', Ident ''frameElement'', Punct CHR ''='',
           Ident ''null'', Punct CHR '';'',
           Ident ''var'', Ident ''child'', Punct CHR ''='', Ident ''window'', Punct CHR ''.'',
           Ident ''open'', Punct CHR ''('',
           StrLit url,
           Punct CHR '')'', Punct CHR '';'', Ident ''child'', Punct CHR ''.'', Ident ''opener'',
           Punct CHR ''='', Ident ''null'']"
  unfolding script_text_split lexer_prefix
  by (simp only: lexer_InStr_plain [OF assms] lexer_suffix) (simp add: emit_def)

text \<open>
  For a url without double quote, backslash and line terminator the script is the five
  statements in this order: the three references of the frame's window set to \<open>null\<close>, the
  call of \<open>window.open\<close> with the url kept in \<open>child\<close>, and \<open>child.opener\<close> set to
  \<open>null\<close>.
\<close>

lemma script_text_statements:
  assumes "plain_url url"
  shows "parse_script (script_text url) =
     Read [AssignNull [''window'', ''parent''], AssignNull [''window'', ''top''],
           AssignNull [''window'', ''frameElement''],
           VarCall ''child'' [''window'', ''open''] url,
           AssignNull [''child'', ''opener'']]"
  unfolding parse_script_def script_text_tokens [OF assms]
  by (simp add: parse_stmt_def reserved_word_def)

lemma library_script_library_statements: "library_script (library_statements u) = Some u"
  by (simp add: library_script_def library_statements_def)

lemma appendChild_script_plain:
  assumes "plain_url url" and "frame \<in> set (body w)"
  shows "appendChild_script frame (script_text url) w =
           Returned Undefined
             (w\<lparr>executed := executed w @ [(frame, script_text url)],
                open_calls := open_calls w @ [url],
                windows := (if popup_blocked w then windows w else windows w @ [(url, False)])\<rparr>)"
proof -
  have "parse_script (script_text url) = Read (library_statements url)"
    using script_text_statements [OF assms(1)] by (simp add: library_statements_def)
  then show ?thesis
    using assms(2)
    by (simp add: appendChild_script_def library_script_library_statements window_open_def
          set_opener_null_def Let_def)
qed

lemma example_url_plain: "plain_url ''http://example.com/''"
  by (simp add: plain_url_def double_quote_def backslash_def line_terminator_def)

text \<open>
  C4. The url is put between two double quotes as it is. Take the \<open>href\<close> value that
  consists of \<^verbatim>\<open>http://a/\<close>, a double quote, \<^verbatim>\<open>);alert(\<close>, a double quote and
  \<^verbatim>\<open>x\<close>; \<open>clickListener\<close> reads it from the anchor and passes it on unchanged. The
  first double quote of the url ends the string literal: \<open>window.open\<close> is called with
  \<^verbatim>\<open>http://a/\<close> only, and the rest of the url is a statement of the script, a call of
  \<open>alert\<close> with the string \<open>x\<close>. The frame has then run a statement that is not the
  library's.
\<close>

theorem script_text_quote_ends_literal:
  "getAttribute quote_page 0 ''href'' = Some quote_url
   \<and> executed (world_of (clickListener (Some 0) quote_page)) = [(0, script_text quote_url)]
   \<and> parse_script (script_text quote_url) =
       Read [AssignNull [''window'', ''parent''], AssignNull [''window'', ''top''],
             AssignNull [''window'', ''frameElement''],
             VarCall ''child'' [''window'', ''open''] ''http://a/'',
             ExprCall [''alert''] ''x'',
             AssignNull [''child'', ''opener'']]
   \<and> undetermined (clickListener (Some 0) quote_page)"
proof -
  have a: "getAttribute quote_page 0 ''href'' = Some quote_url"
    by (simp add: quote_page_def getAttribute_def)
  have n: "quote_url \<noteq> []" by (simp add: quote_url_def)
  have c: "parse_script (script_text quote_url) =
       Read [AssignNull [''window'', ''parent''], AssignNull [''window'', ''top''],
             AssignNull [''window'', ''frameElement''],
             VarCall ''child'' [''window'', ''open''] ''http://a/'',
             ExprCall [''alert''] ''x'',
             AssignNull [''child'', ''opener'']]"
    by code_simp
  have l: "library_script
             [AssignNull [''window'', ''parent''], AssignNull [''window'', ''top''],
              AssignNull [''window'', ''frameElement''],
              VarCall ''child'' [''window'', ''open''] ''http://a/'',
              ExprCall [''alert''] ''x'',
              AssignNull [''child'', ''opener'']] = None"
    by (simp add: library_script_def library_statements_def)
  have i: "iframeOpen quote_url quote_page =
             Undetermined (quote_page\<lparr>fresh := 1, body := [0],
                                       executed := [(0, script_text quote_url)]\<rparr>)"
    by (simp add: iframeOpen_def createElement_def appendChild_body_def appendChild_script_def
          c l Let_def quote_page_def page_def)
  have k: "clickListener (Some 0) quote_page =
             Undetermined (quote_page\<lparr>fresh := 1, body := [0],
                                       executed := [(0, script_text quote_url)]\<rparr>)"
  proof -
    have t: "target (events quote_page 0) = Some 0"
      by (simp add: quote_page_def page_def plain_click_def)
    have b: "getAttribute quote_page 0 ''target'' = Some ''_blank''"
      by (simp add: quote_page_def getAttribute_def)
    from n show ?thesis by (simp add: clickListener_def t a b i)
  qed
  from a c k show ?thesis by simp
qed

text \<open>
  C5. For the url that consists of \<^verbatim>\<open>http://example.com/?q=\<close>, a double quote and
  \<^verbatim>\<open>a\<close>, the generated text has a string literal that never ends: the text is rejected
  as a whole, so the script sets no reference to \<open>null\<close>, opens no window and clears no
  \<open>opener\<close>. A click on an anchor with this \<open>href\<close> is cancelled all the same.
\<close>

theorem script_text_quote_syntax_error:
  "lexer Code (script_text query_quote_url) = SyntaxError
   \<and> parse_script (script_text query_quote_url) = SyntaxError
   \<and> open_calls (world_of (clickListener (Some 0) query_quote_page)) = []
   \<and> windows (world_of (clickListener (Some 0) query_quote_page)) = []
   \<and> preventDefault_calls (events (world_of (clickListener (Some 0) query_quote_page)) 0) = 1"
proof -
  have a: "lexer Code (script_text query_quote_url) = SyntaxError"
    by code_simp
  have b: "parse_script (script_text query_quote_url) = SyntaxError"
    by code_simp
  have h: "getAttribute query_quote_page 0 ''href'' = Some query_quote_url"
    by (simp add: query_quote_page_def getAttribute_def)
  have n: "query_quote_url \<noteq> []" by (simp add: query_quote_url_def)
  have i: "iframeOpen query_quote_url query_quote_page =
             Returned Undefined
               (query_quote_page\<lparr>fresh := 1, executed := [(0, script_text query_quote_url)]\<rparr>)"
    by (simp add: iframeOpen_def createElement_def appendChild_body_def appendChild_script_def
          removeChild_body_def b Let_def query_quote_page_def page_def)
  have k: "clickListener (Some 0) query_quote_page =
             Returned (Boolean False)
               (cancel_default 0
                  (query_quote_page\<lparr>fresh := 1, executed := [(0, script_text query_quote_url)]\<rparr>))"
  proof -
    have t: "target (events query_quote_page 0) = Some 0"
      by (simp add: query_quote_page_def page_def plain_click_def)
    have g: "getAttribute query_quote_page 0 ''target'' = Some ''_blank''"
      by (simp add: query_quote_page_def getAttribute_def)
    from n show ?thesis by (simp add: clickListener_def t h g i)
  qed
  let ?w = "cancel_default 0
              (query_quote_page\<lparr>fresh := 1, executed := [(0, script_text query_quote_url)]\<rparr>)"
  have o: "open_calls ?w = []" "windows ?w = []" "preventDefault_calls (events ?w 0) = 1"
    by (simp_all add: cancel_default_def update_event_def query_quote_page_def page_def
          plain_click_def)
  from a b o show ?thesis by (simp add: k)
qed

text \<open>
  A third url with a double quote ends in a line comment: the script opens the window and
  the statement that clears \<open>opener\<close> is commented out.
\<close>

lemma script_text_comment_example:
  "parse_script (script_text comment_url) =
     Read [AssignNull [''window'', ''parent''], AssignNull [''window'', ''top''],
           AssignNull [''window'', ''frameElement''],
           VarCall ''child'' [''window'', ''open''] ''http://a/'']"
  by code_simp

section \<open>iframeOpen\<close>

lemma iframeOpen_returns:
  assumes "has_contentDocument w \<or> has_contentWindow w" and "plain_url url"
  shows "iframeOpen url w =
           Returned Undefined
             (w\<lparr>fresh := Suc (fresh w),
                body := remove1 (fresh w) (body w @ [fresh w]),
                executed := executed w @ [(fresh w, script_text url)],
                open_calls := open_calls w @ [url],
                windows := (if popup_blocked w then windows w else windows w @ [(url, False)])\<rparr>)"
  using assms(1)
  by (auto simp: iframeOpen_def createElement_def appendChild_body_def
        appendChild_script_plain [OF assms(2)] removeChild_body_def Let_def)

text \<open>
  C6, as amended. Let the node that \<open>createElement\<close> hands out be new to the children of
  the body, and let the url have no double quote, backslash or line terminator. Then
  \<open>iframeOpen\<close> returns whenever the host gives the frame a document, and every call that
  returns has put the frame among the children of the body, has had the script run in it
  while it was there, and has taken it out again: the frame is not in the tree afterwards,
  and the children of the body are what they were before the call.
\<close>

theorem iframeOpen_removes_iframe:
  assumes "fresh w \<notin> set (body w)" and "plain_url url"
  shows "(has_contentDocument w \<or> has_contentWindow w \<longrightarrow>
            (\<exists>w'. iframeOpen url w = Returned Undefined w'))
       \<and> (\<forall>v w'. iframeOpen url w = Returned v w' \<longrightarrow>
            fresh w \<in> set (body (appendChild_body (fresh w) (snd (createElement w))))
          \<and> (\<exists>w3. appendChild_script (fresh w) (script_text url)
                     (appendChild_body (fresh w) (snd (createElement w))) = Returned Undefined w3
                \<and> fresh w \<in> set (body w3)
                \<and> removeChild_body (fresh w) w3 = Returned Undefined w')
          \<and> executed w' = executed w @ [(fresh w, script_text url)]
          \<and> fresh w \<notin> set (body w')
          \<and> body w' = body w)"
proof -
  let ?w2 = "w\<lparr>fresh := Suc (fresh w), body := body w @ [fresh w]\<rparr>"
  have in2: "fresh w \<in> set (body ?w2)"
    by simp
  have s: "appendChild_script (fresh w) (script_text url) ?w2 =
             Returned Undefined
               (?w2\<lparr>executed := executed w @ [(fresh w, script_text url)],
                     open_calls := open_calls w @ [url],
                     windows := (if popup_blocked w then windows w
                                 else windows w @ [(url, False)])\<rparr>)"
    using appendChild_script_plain [OF assms(2) in2] by simp
  show ?thesis
    using assms(1)
    by (auto simp: iframeOpen_def s removeChild_body_def Let_def remove1_append
          createElement_def appendChild_body_def split: if_splits)
qed

theorem iframeOpen_removes_iframe_witness:
  "fresh page \<notin> set (body page)
   \<and> plain_url ''http://example.com/''
   \<and> (has_contentDocument page \<or> has_contentWindow page)
   \<and> (\<exists>w'. iframeOpen ''http://example.com/'' page = Returned Undefined w'
         \<and> executed w' = [(0, script_text ''http://example.com/'')]
         \<and> 0 \<notin> set (body w')
         \<and> body w' = [])"
proof -
  have f: "fresh page \<notin> set (body page)" by (simp add: page_def)
  have h: "has_contentDocument page \<or> has_contentWindow page" by (simp add: page_def)
  have z: "fresh page = 0" "body page = []" "executed page = []" by (simp_all add: page_def)
  from iframeOpen_removes_iframe [OF f example_url_plain] f h z example_url_plain
  show ?thesis by auto
qed

text \<open>
  The claim for every call fails on a host that gives the frame no document: the call
  throws after the frame was appended, nothing removes the frame, and it stays in the
  tree.
\<close>

theorem iframeOpen_no_document_leaves_iframe:
  "fresh no_frame_document_page \<notin> set (body no_frame_document_page)
   \<and> iframeOpen ''http://example.com/'' no_frame_document_page =
       Threw TypeError (no_frame_document_page\<lparr>fresh := 1, body := [0]\<rparr>)
   \<and> fresh no_frame_document_page
       \<in> set (body (world_of (iframeOpen ''http://example.com/'' no_frame_document_page)))"
  by (simp add: iframeOpen_def createElement_def appendChild_body_def Let_def
        no_frame_document_page_def page_def)

lemma iframeOpen_throws:
  assumes "\<not> has_contentDocument w" and "\<not> has_contentWindow w"
  shows "iframeOpen url w =
           Threw TypeError (w\<lparr>fresh := Suc (fresh w), body := body w @ [fresh w]\<rparr>)"
  using assms
  by (auto simp: iframeOpen_def createElement_def appendChild_body_def Let_def)

section \<open>The listeners\<close>

subsection \<open>clickListener of blankshield.js\<close>

text \<open>
  A click whose element has a non-empty \<open>href\<close> and either \<open>target="_blank"\<close> or a
  modifier key: one call of \<open>iframeOpen\<close> with that \<open>href\<close>, then one cancellation on
  the event, and the result \<open>false\<close>.
\<close>

lemma clickListener_qualifying:
  assumes ev: "(case e0 of Some e \<Rightarrow> Some e | None \<Rightarrow> window_event w) = Some e"
    and tg: "(case target (events w e) of Some t \<Rightarrow> Some t | None \<Rightarrow> srcElement (events w e)) = Some t"
    and href: "getAttribute w t ''href'' = Some href" "href \<noteq> []" "plain_url href"
    and q: "getAttribute w t ''target'' = Some ''_blank''
            \<or> ctrlKey (events w e) \<or> shiftKey (events w e) \<or> metaKey (events w e)"
    and host: "has_contentDocument w \<or> has_contentWindow w"
  shows "clickListener e0 w =
           Returned (Boolean False)
             (cancel_default e
                (w\<lparr>fresh := Suc (fresh w),
                   body := remove1 (fresh w) (body w @ [fresh w]),
                   executed := executed w @ [(fresh w, script_text href)],
                   open_calls := open_calls w @ [href],
                   windows := (if popup_blocked w then windows w
                               else windows w @ [(href, False)])\<rparr>))"
  using ev tg href(1,2) q iframeOpen_returns [OF host href(3)]
  by (auto simp: clickListener_def)

lemma clickListener_not_qualifying:
  assumes ev: "(case e0 of Some e \<Rightarrow> Some e | None \<Rightarrow> window_event w) = Some e"
    and tg: "(case target (events w e) of Some t \<Rightarrow> Some t | None \<Rightarrow> srcElement (events w e)) = Some t"
    and nq: "getAttribute w t ''href'' = None \<or> getAttribute w t ''href'' = Some []
             \<or> (getAttribute w t ''target'' \<noteq> Some ''_blank''
                 \<and> \<not> ctrlKey (events w e) \<and> \<not> shiftKey (events w e) \<and> \<not> metaKey (events w e))"
  shows "clickListener e0 w = Returned Undefined w"
  using assms by (auto simp: clickListener_def split: option.splits)

text \<open>
  The cancellation prefers \<open>preventDefault\<close> and sets \<open>returnValue\<close> to \<open>false\<close> on an
  event that has none.
\<close>

lemma clickListener_cancels:
  assumes ev: "(case e0 of Some e \<Rightarrow> Some e | None \<Rightarrow> window_event w) = Some e"
    and tg: "(case target (events w e) of Some t \<Rightarrow> Some t | None \<Rightarrow> srcElement (events w e)) = Some t"
    and href: "getAttribute w t ''href'' = Some href" "href \<noteq> []" "plain_url href"
    and q: "getAttribute w t ''target'' = Some ''_blank''
            \<or> ctrlKey (events w e) \<or> shiftKey (events w e) \<or> metaKey (events w e)"
    and host: "has_contentDocument w \<or> has_contentWindow w"
  shows "\<exists>w'. clickListener e0 w = Returned (Boolean False) w'
           \<and> events w' e =
               (if has_preventDefault (events w e)
                then (events w e)\<lparr>preventDefault_calls := Suc (preventDefault_calls (events w e))\<rparr>
                else (events w e)\<lparr>returnValue := Boolean False\<rparr>)"
  by (simp add: clickListener_qualifying [OF assms] cancel_default_def update_event_def)

subsection \<open>handler of the second source file\<close>

text \<open>
  The same decision, with the window opened by the page itself. It completes when
  \<open>window.open\<close> hands back a window and the event has \<open>preventDefault\<close>.
\<close>

lemma handler_qualifying:
  assumes tg: "target (events w e) = Some t"
    and href: "getAttribute w t ''href'' = Some href" "href \<noteq> []"
    and q: "getAttribute w t ''target'' = Some ''_blank''
            \<or> ctrlKey (events w e) \<or> shiftKey (events w e) \<or> metaKey (events w e)"
    and popup: "\<not> popup_blocked w"
    and pd: "has_preventDefault (events w e)"
  shows "handler (Some e) w =
           Returned Undefined
             (update_event e (\<lambda>ev. ev\<lparr>preventDefault_calls := Suc (preventDefault_calls ev)\<rparr>)
                (w\<lparr>open_calls := open_calls w @ [href],
                   windows := windows w @ [(href, False)]\<rparr>))"
  using assms
  by (auto simp: handler_def window_open_def set_opener_null_def Let_def)

lemma handler_not_qualifying:
  assumes tg: "target (events w e) = Some t"
    and nq: "getAttribute w t ''href'' = None \<or> getAttribute w t ''href'' = Some []
             \<or> (getAttribute w t ''target'' \<noteq> Some ''_blank''
                 \<and> \<not> ctrlKey (events w e) \<and> \<not> shiftKey (events w e) \<and> \<not> metaKey (events w e))"
  shows "handler (Some e) w = Returned Undefined w"
  using assms by (auto simp: handler_def split: option.splits)

text \<open>
  C1. In the second source file the qualifying click is not always cancelled. On the
  example page behind a popup blocker, the plain click on the anchor with
  \<open>target="_blank"\<close> makes \<open>handler\<close> call \<open>window.open\<close> once with the \<open>href\<close>; the call
  gives \<open>null\<close>, the assignment to \<open>child.opener\<close> throws a TypeError, and the line that
  calls \<open>preventDefault\<close> is never reached: the event is left uncancelled.
\<close>

theorem handler_popup_blocked_not_cancelled:
  "handler (Some 0) blocked_page =
     Threw TypeError (blocked_page\<lparr>open_calls := [''http://example.com/'']\<rparr>)
   \<and> preventDefault_calls (events (world_of (handler (Some 0) blocked_page)) 0) = 0
   \<and> returnValue (events (world_of (handler (Some 0) blocked_page)) 0) = Undefined"
  by (simp add: handler_def blocked_page_def page_def blank_anchor_def plain_element_def
        plain_click_def getAttribute_def window_open_def)

text \<open>
  C2. The direct opening in \<open>handler\<close> has no test for a blocked popup: on every
  qualifying click for which \<open>window.open\<close> gives \<open>null\<close>, the handler goes on to assign
  \<open>child.opener\<close> and throws a TypeError, after the one call of \<open>window.open\<close>.
\<close>

theorem handler_null_child_throws:
  assumes "target (events w e) = Some t"
    and "getAttribute w t ''href'' = Some href" and "href \<noteq> []"
    and "getAttribute w t ''target'' = Some ''_blank''
         \<or> ctrlKey (events w e) \<or> shiftKey (events w e) \<or> metaKey (events w e)"
    and "popup_blocked w"
  shows "window_open href w = (None, w\<lparr>open_calls := open_calls w @ [href]\<rparr>)
         \<and> handler (Some e) w = Threw TypeError (w\<lparr>open_calls := open_calls w @ [href]\<rparr>)"
  using assms by (auto simp: handler_def window_open_def)

theorem handler_null_child_throws_witness:
  "target (events blocked_ctrl_page 1) = Some 1
   \<and> getAttribute blocked_ctrl_page 1 ''href'' = Some ''http://example.org/a''
   \<and> ctrlKey (events blocked_ctrl_page 1)
   \<and> popup_blocked blocked_ctrl_page
   \<and> handler (Some 1) blocked_ctrl_page =
       Threw TypeError (blocked_ctrl_page\<lparr>open_calls := [''http://example.org/a'']\<rparr>)"
proof -
  have t: "target (events blocked_ctrl_page 1) = Some 1"
    by (simp add: blocked_ctrl_page_def ctrl_click_def)
  have h: "getAttribute blocked_ctrl_page 1 ''href'' = Some ''http://example.org/a''"
    by (simp add: blocked_ctrl_page_def getAttribute_def plain_link_def)
  have n: "''http://example.org/a'' \<noteq> []" by simp
  have c: "ctrlKey (events blocked_ctrl_page 1)"
    by (simp add: blocked_ctrl_page_def ctrl_click_def)
  have q: "getAttribute blocked_ctrl_page 1 ''target'' = Some ''_blank''
           \<or> ctrlKey (events blocked_ctrl_page 1) \<or> shiftKey (events blocked_ctrl_page 1)
           \<or> metaKey (events blocked_ctrl_page 1)"
    using c by simp
  have b: "popup_blocked blocked_ctrl_page" by (simp add: blocked_ctrl_page_def)
  have o: "open_calls blocked_ctrl_page = []" by (simp add: blocked_ctrl_page_def page_def)
  from handler_null_child_throws [OF t h n q b] t h c b o show ?thesis by simp
qed

text \<open>
  C9. \<open>handler\<close> of the second source file has no fallback for an event without
  \<open>preventDefault\<close>. The click that an old Internet Explorer delivers (event \<open>1\<close>) makes it
  throw at once, on reading \<open>e.target\<close>; the click with a \<open>target\<close> but no
  \<open>preventDefault\<close> (event \<open>2\<close>) makes it open the window and then throw on calling
  \<open>preventDefault\<close>, with \<open>returnValue\<close> untouched. \<open>clickListener\<close> of \<open>blankshield.js\<close>
  sets \<open>returnValue\<close> to \<open>false\<close> on both.
\<close>

theorem handler_no_legacy_fallback:
  "handler (Some 1) legacy_event_page = Threw TypeError legacy_event_page
   \<and> handler (Some 2) legacy_event_page =
       Threw TypeError
         (legacy_event_page\<lparr>open_calls := [''http://example.com/''],
                             windows := [(''http://example.com/'', False)]\<rparr>)
   \<and> returnValue (events (world_of (handler (Some 2) legacy_event_page)) 2) = Undefined
   \<and> preventDefault_calls (events (world_of (handler (Some 2) legacy_event_page)) 2) = 0
   \<and> returnValue (events (world_of (clickListener (Some 1) legacy_event_page)) 1) = Boolean False
   \<and> returnValue (events (world_of (clickListener (Some 2) legacy_event_page)) 2) = Boolean False"
proof -
  have host: "has_contentDocument legacy_event_page \<or> has_contentWindow legacy_event_page"
    by (simp add: legacy_event_page_def page_def)
  note i = iframeOpen_returns [OF host example_url_plain]
  have h: "handler (Some 1) legacy_event_page = Threw TypeError legacy_event_page
     \<and> handler (Some 2) legacy_event_page =
         Threw TypeError
           (legacy_event_page\<lparr>open_calls := [''http://example.com/''],
                               windows := [(''http://example.com/'', False)]\<rparr>)"
    by (simp add: handler_def legacy_event_page_def page_def legacy_click_def
          no_preventDefault_click_def plain_click_def blank_anchor_def plain_element_def
          getAttribute_def window_open_def set_opener_null_def Let_def)
  have a: "getAttribute legacy_event_page 0 ''href'' = Some ''http://example.com/''"
          "getAttribute legacy_event_page 0 ''target'' = Some ''_blank''"
    by (simp_all add: legacy_event_page_def page_def getAttribute_def blank_anchor_def)
  have e1: "target (events legacy_event_page 1) = None"
           "srcElement (events legacy_event_page 1) = Some 0"
           "\<not> has_preventDefault (events legacy_event_page 1)"
    by (simp_all add: legacy_event_page_def legacy_click_def plain_click_def)
  have e2: "target (events legacy_event_page 2) = Some 0"
           "\<not> has_preventDefault (events legacy_event_page 2)"
    by (simp_all add: legacy_event_page_def no_preventDefault_click_def plain_click_def)
  have c1: "returnValue (events (world_of (clickListener (Some 1) legacy_event_page)) 1)
              = Boolean False"
    using e1 by (simp add: clickListener_def a i cancel_default_def update_event_def)
  have c2: "returnValue (events (world_of (clickListener (Some 2) legacy_event_page)) 2)
              = Boolean False"
    using e2 by (simp add: clickListener_def a i cancel_default_def update_event_def)
  have r: "returnValue (events legacy_event_page 2) = Undefined"
          "preventDefault_calls (events legacy_event_page 2) = 0"
    by (simp_all add: legacy_event_page_def no_preventDefault_click_def plain_click_def)
  from h c1 c2 r show ?thesis by simp
qed

text \<open>
  C10. Both listeners read \<open>href\<close> and \<open>target\<close> from the element the event names as its
  target. When the click lands on an element \<open>d\<close> that has no \<open>href\<close> of its own (absent
  or empty), each listener returns without opening anything and without cancelling, also
  when it is called for an anchor \<open>a\<close> that has an \<open>href\<close> and \<open>target="_blank"\<close>: the
  attributes of \<open>a\<close> are never consulted.
\<close>

theorem listeners_read_event_target:
  assumes anchor: "getAttribute w a ''href'' = Some x" "x \<noteq> []"
                  "getAttribute w a ''target'' = Some ''_blank''"
    and click: "target (events w e) = Some d"
    and no_href: "getAttribute w d ''href'' = None \<or> getAttribute w d ''href'' = Some []"
  shows "invoke ClickListener (Some e) w = Returned Undefined w
         \<and> invoke Handler (Some e) w = Returned Undefined w"
  using click no_href
  by (auto simp: clickListener_def handler_def split: option.splits)

theorem listeners_read_event_target_witness:
  "getAttribute nested_page 0 ''href'' = Some ''http://example.com/''
   \<and> getAttribute nested_page 0 ''target'' = Some ''_blank''
   \<and> target (events nested_page 1) = Some 5
   \<and> getAttribute nested_page 5 ''href'' = None
   \<and> invoke ClickListener (Some 1) nested_page = Returned Undefined nested_page
   \<and> invoke Handler (Some 1) nested_page = Returned Undefined nested_page"
proof -
  have h: "getAttribute nested_page 0 ''href'' = Some ''http://example.com/''"
    by (simp add: nested_page_def page_def getAttribute_def blank_anchor_def)
  have n: "''http://example.com/'' \<noteq> []" by simp
  have t: "getAttribute nested_page 0 ''target'' = Some ''_blank''"
    by (simp add: nested_page_def page_def getAttribute_def blank_anchor_def)
  have c: "target (events nested_page 1) = Some 5"
    by (simp add: nested_page_def)
  have d: "getAttribute nested_page 5 ''href'' = None"
    by (simp add: nested_page_def page_def getAttribute_def plain_element_def)
  have d': "getAttribute nested_page 5 ''href'' = None
            \<or> getAttribute nested_page 5 ''href'' = Some []"
    using d by simp
  from listeners_read_event_target [OF h n t c d'] h t c d show ?thesis by simp
qed

section \<open>Registration\<close>

subsection \<open>The onclick slot\<close>

text \<open>
  \<open>addEventListener\<close> of \<open>blankshield.js\<close>, on an object with neither registration
  interface whose slot is taken, stores a closure over the new and the previous function;
  calling the closure calls the new function and then the previous one, both without
  argument.
\<close>

lemma addEventListener_wraps_previous:
  assumes "\<not> has_addEventListener (objs w r)" and "\<not> has_attachEvent (objs w r)"
    and "on_slots (objs w r) (''on'' @ type) = Some prevListener"
  shows "addEventListener (Ref r) type listener w =
           Returned Undefined
             (update_obj r (\<lambda>ob. ob\<lparr>on_slots :=
                (on_slots ob)(''on'' @ type \<mapsto> Wrapper listener prevListener)\<rparr>) w)"
  using assms by (simp add: addEventListener_def)

lemma wrapper_calls_both:
  assumes "invoke listener None w = Returned v1 w1"
    and "invoke prevListener None w1 = Returned v2 w2"
  shows "invoke (Wrapper listener prevListener) arg w = Returned Undefined w2"
  using assms by simp

lemma wrapper_foreign_calls:
  "invoke (Wrapper (Foreign n False) (Foreign m False)) arg w =
     Returned Undefined (w\<lparr>calls := calls w @ [(n, None), (m, None)]\<rparr>)"
  by (simp add: Let_def)

text \<open>
  On the example page, \<open>blankshield\<close> of \<open>blankshield.js\<close> on the object whose slot holds
  function \<open>7\<close> leaves a closure there; a click then runs the script for the anchor,
  cancels the global event and calls function \<open>7\<close>.
\<close>

lemma blankshield_chains_onclick_example:
  "on_slots (objs (world_of (blankshield (Object 1) legacy_page)) 1) ''onclick''
     = Some (Wrapper ClickListener (Foreign 7 False))
   \<and> executed (world_of (click_slot 1 0 (world_of (blankshield (Object 1) legacy_page))))
       = [(0, script_text ''http://example.com/'')]
   \<and> calls (world_of (click_slot 1 0 (world_of (blankshield (Object 1) legacy_page))))
       = [(7, None)]
   \<and> preventDefault_calls
        (events (world_of (click_slot 1 0 (world_of (blankshield (Object 1) legacy_page)))) 0) = 1"
proof -
  define w1 where
    "w1 = update_obj 1 (\<lambda>ob. ob\<lparr>on_slots :=
             (on_slots ob)(''onclick'' \<mapsto> Wrapper ClickListener (Foreign 7 False))\<rparr>) legacy_page"
  have b: "blankshield (Object 1) legacy_page = Returned Undefined w1"
    by (simp add: blankshield_def length_of_def operand_of_def addEventListener_def Let_def
          legacy_page_def legacy_element_def page_def plain_element_def w1_def)
  have host: "has_contentDocument w1 \<or> has_contentWindow w1"
    by (simp add: w1_def update_obj_def legacy_page_def page_def)
  note i = iframeOpen_returns [OF host example_url_plain]
  have f: "window_event w1 = Some 0" "target (events w1 0) = Some 0"
          "getAttribute w1 0 ''href'' = Some ''http://example.com/''"
          "getAttribute w1 0 ''target'' = Some ''_blank''"
          "on_slots (objs w1 (Suc 0)) ''onclick'' = Some (Wrapper ClickListener (Foreign 7 False))"
          "has_preventDefault (events w1 0)" "preventDefault_calls (events w1 0) = 0"
          "executed w1 = []" "calls w1 = []" "fresh w1 = 0"
    by (simp_all add: w1_def update_obj_def legacy_page_def page_def plain_click_def
          getAttribute_def blank_anchor_def)
  show ?thesis
    unfolding b world_of.simps
    by (simp add: click_slot_def f clickListener_def i cancel_default_def update_event_def
          Let_def)
qed

lemma addEvent_overwrites_slot:
  assumes "\<not> has_addEventListener (objs w r)" and "\<not> has_attachEvent (objs w r)"
  shows "addEvent (Ref r) type listener w =
           Returned Undefined
             (update_obj r (\<lambda>ob. ob\<lparr>on_slots := (on_slots ob)(''on'' @ type \<mapsto> listener)\<rparr>) w)"
  using assms by (simp add: addEvent_def)

text \<open>
  C3. \<open>addEvent\<close> of the second source file builds no closure. On the object of the
  example page that has neither registration interface and whose \<open>onclick\<close> holds function
  \<open>7\<close>, registering function \<open>8\<close> leaves function \<open>8\<close> alone in the slot, and a click
  calls function \<open>8\<close> only; after \<open>blankshield\<close> of that file the slot holds its listener
  alone and a click calls no function of the page. \<open>addEventListener\<close> of
  \<open>blankshield.js\<close>, in the same state, makes a click call function \<open>8\<close> and then
  function \<open>7\<close>, both without the event.
\<close>

theorem addEvent_drops_previous_listener:
  "on_slots (objs legacy_page 1) ''onclick'' = Some (Foreign 7 False)
   \<and> on_slots (objs (world_of (addEvent (Ref 1) ''click'' (Foreign 8 False) legacy_page)) 1) ''onclick''
       = Some (Foreign 8 False)
   \<and> calls (world_of (click_slot 1 0
        (world_of (addEvent (Ref 1) ''click'' (Foreign 8 False) legacy_page)))) = [(8, Some 0)]
   \<and> on_slots (objs (world_of (blankshield_direct (Object 1) legacy_page)) 1) ''onclick'' = Some Handler
   \<and> calls (world_of (click_slot 1 0 (world_of (blankshield_direct (Object 1) legacy_page)))) = []
   \<and> calls (world_of (click_slot 1 0
        (world_of (addEventListener (Ref 1) ''click'' (Foreign 8 False) legacy_page))))
       = [(8, None), (7, None)]"
  by (simp add: legacy_page_def legacy_element_def page_def plain_element_def blank_anchor_def
        plain_click_def addEvent_def addEventListener_def update_obj_def click_slot_def Let_def
        blankshield_direct_def length_of_def operand_of_def handler_def getAttribute_def
        window_open_def set_opener_null_def update_event_def)

subsection \<open>Strings handed to blankshield\<close>

text \<open>
  Without the test for strings the loop would visit the characters: the first character
  of a string that is not empty is handed to the registration as a primitive string, and
  the registration throws.
\<close>

lemma loop_over_string_throws:
  "blankshield_loop (PrimString (c # cs)) 0 w = Threw TypeError w
   \<and> blankshield_direct_loop (PrimString (c # cs)) 0 w = Threw TypeError w"
  by (simp add: length_of_def js_less_def item_at_def addEventListener_def addEvent_def)

text \<open>
  C7, as amended. For a primitive string, and for a \<open>String\<close> object for which
  \<open>target instanceof String\<close> holds (one made by the page itself), \<open>blankshield\<close> of
  either source file returns normally and leaves the whole state as it was: no listener is
  registered, no object is touched, nothing is thrown, and the characters of the string are
  never visited.
\<close>

theorem blankshield_string_no_action:
  "blankshield (PrimString s) w = Returned Undefined w
   \<and> blankshield_direct (PrimString s) w = Returned Undefined w
   \<and> (string_data (objs w r) = Some s \<and> inherits_String (objs w r) \<longrightarrow>
        blankshield (Object r) w = Returned Undefined w
        \<and> blankshield_direct (Object r) w = Returned Undefined w)"
  by (simp add: blankshield_def blankshield_direct_def length_of_def
        typeof_string_def instanceof_String_def)

theorem blankshield_string_no_action_witness:
  "blankshield (PrimString ''ab'') own_string_page = Returned Undefined own_string_page
   \<and> blankshield_direct (PrimString ''ab'') own_string_page = Returned Undefined own_string_page
   \<and> string_data (objs own_string_page 3) = Some ''ab''
   \<and> inherits_String (objs own_string_page 3)
   \<and> blankshield (Object 3) own_string_page = Returned Undefined own_string_page
   \<and> blankshield_direct (Object 3) own_string_page = Returned Undefined own_string_page"
proof -
  have d: "string_data (objs own_string_page 3) = Some ''ab''"
    by (simp add: own_string_page_def string_object_def)
  have i: "inherits_String (objs own_string_page 3)"
    by (simp add: own_string_page_def string_object_def)
  from blankshield_string_no_action [of "''ab''" own_string_page 3] d i
  show ?thesis by simp
qed

text \<open>
  A \<open>String\<close> object made in another frame fails the test \<open>target instanceof String\<close>. It
  has a numeric \<open>length\<close> and is not a primitive string, so it is taken for a collection:
  the loop reads its first character and the registration on that character throws a
  TypeError.
\<close>

theorem blankshield_other_realm_String_iterated:
  "string_data (objs other_realm_string_page 3) = Some ''ab''
   \<and> \<not> instanceof_String (Object 3) other_realm_string_page
   \<and> item_at (Object 3) 0 other_realm_string_page = Prim ''a''
   \<and> blankshield (Object 3) other_realm_string_page = Threw TypeError other_realm_string_page
   \<and> blankshield_direct (Object 3) other_realm_string_page
       = Threw TypeError other_realm_string_page"
  by (simp add: other_realm_string_page_def string_object_def page_def plain_element_def
        blankshield_def blankshield_direct_def length_of_def typeof_string_def
        instanceof_String_def js_less_def item_at_def addEventListener_def addEvent_def)

subsection \<open>A single element\<close>

lemma occurrences_self [simp]: "occurrences h h = 1"
  by (cases h) simp_all

lemma length_of_Undefined:
  assumes "length_of tgt w = Undefined"
  shows "\<exists>r. tgt = Object r"
  using assms by (cases tgt) (simp_all add: length_of_def)

lemma addEventListener_returns:
  "\<exists>w'. addEventListener (Ref r) type listener w = Returned Undefined w'"
  by (auto simp: addEventListener_def Let_def split: option.splits)

lemma addEventListener_frame:
  assumes "addEventListener (Ref r) type listener w = Returned v w'"
  shows "(\<forall>r'. r' \<noteq> r \<longrightarrow> objs w' r' = objs w r') \<and> w'\<lparr>objs := objs w\<rparr> = w"
  using assms
  by (auto simp: addEventListener_def update_obj_def Let_def split: if_splits option.splits)

lemma registrations_addEventListener:
  assumes "addEventListener (Ref r) ''click'' ClickListener w = Returned v w'"
  shows "registrations (objs w' r) ClickListener = Suc (registrations (objs w r) ClickListener)"
  using assms
  by (auto simp: addEventListener_def update_obj_def registrations_def Let_def
        split: if_splits option.splits)

lemma addEvent_returns: "\<exists>w'. addEvent (Ref r) type listener w = Returned Undefined w'"
  by (auto simp: addEvent_def)

lemma addEvent_frame:
  assumes "addEvent (Ref r) type listener w = Returned v w'"
  shows "(\<forall>r'. r' \<noteq> r \<longrightarrow> objs w' r' = objs w r') \<and> w'\<lparr>objs := objs w\<rparr> = w"
  using assms
  by (auto simp: addEvent_def update_obj_def split: if_splits)

text \<open>
  \<open>addEvent\<close> adds one registration through an interface; without an interface it puts
  the listener in the slot, once, in place of whatever the slot held.
\<close>

lemma registrations_addEvent:
  assumes "addEvent (Ref r) ''click'' Handler w = Returned v w'"
  shows "registrations (objs w' r) Handler =
           (if has_addEventListener (objs w r) \<or> has_attachEvent (objs w r)
            then Suc (registrations (objs w r) Handler)
            else Suc (interface_registrations (objs w r) Handler))
       \<and> interface_registrations (objs w' r) Handler =
           (if has_addEventListener (objs w r) \<or> has_attachEvent (objs w r)
            then Suc (interface_registrations (objs w r) Handler)
            else interface_registrations (objs w r) Handler)"
  using assms
  by (auto simp: addEvent_def update_obj_def registrations_def interface_registrations_def
        split: if_splits)

text \<open>
  C8, as amended. For every target whose \<open>length\<close> property is \<open>undefined\<close>,
  \<open>blankshield\<close> treats it as a single element: it makes the one registration call for
  clicks on that object and returns. In \<open>blankshield.js\<close> the object then carries exactly
  one registration of the click listener more than before. In the second source file it
  carries exactly one more where the object has a registration interface; where it has
  none, the listener sits in the \<open>onclick\<close> slot exactly once, in place of what the slot
  held, and the registrations made through an interface are as before. No other object
  changes, and nothing else in the state changes.
\<close>

theorem blankshield_single_element:
  assumes "length_of tgt w = Undefined"
  shows "\<exists>r. tgt = Object r
       \<and> (\<exists>w'. blankshield tgt w = Returned Undefined w'
            \<and> addEventListener (Ref r) ''click'' ClickListener w = Returned Undefined w'
            \<and> registrations (objs w' r) ClickListener = Suc (registrations (objs w r) ClickListener)
            \<and> (\<forall>r'. r' \<noteq> r \<longrightarrow> objs w' r' = objs w r')
            \<and> w'\<lparr>objs := objs w\<rparr> = w)
       \<and> (\<exists>w'. blankshield_direct tgt w = Returned Undefined w'
            \<and> addEvent (Ref r) ''click'' Handler w = Returned Undefined w'
            \<and> registrations (objs w' r) Handler =
                (if has_addEventListener (objs w r) \<or> has_attachEvent (objs w r)
                 then Suc (registrations (objs w r) Handler)
                 else Suc (interface_registrations (objs w r) Handler))
            \<and> interface_registrations (objs w' r) Handler =
                (if has_addEventListener (objs w r) \<or> has_attachEvent (objs w r)
                 then Suc (interface_registrations (objs w r) Handler)
                 else interface_registrations (objs w r) Handler)
            \<and> (\<forall>r'. r' \<noteq> r \<longrightarrow> objs w' r' = objs w r')
            \<and> w'\<lparr>objs := objs w\<rparr> = w)"
proof -
  obtain r where t: "tgt = Object r"
    using length_of_Undefined [OF assms] by blast
  obtain w1 where r1: "addEventListener (Ref r) ''click'' ClickListener w = Returned Undefined w1"
    using addEventListener_returns by blast
  obtain w2 where r2: "addEvent (Ref r) ''click'' Handler w = Returned Undefined w2"
    using addEvent_returns by blast
  have b1: "blankshield tgt w = Returned Undefined w1"
    using assms r1 by (simp add: blankshield_def t operand_of_def)
  have b2: "blankshield_direct tgt w = Returned Undefined w2"
    using assms r2 by (simp add: blankshield_direct_def t operand_of_def)
  from t b1 r1 registrations_addEventListener [OF r1] addEventListener_frame [OF r1]
       b2 r2 registrations_addEvent [OF r2] addEvent_frame [OF r2]
  show ?thesis by blast
qed

theorem blankshield_single_element_witness:
  "length_of (Object 0) page = Undefined
   \<and> blankshield (Object 0) page =
       Returned Undefined
         (page\<lparr>objs := (objs page)
            (0 := blank_anchor\<lparr>native_listeners := [(''click'', ClickListener, False)]\<rparr>)\<rparr>)
   \<and> registrations (objs (world_of (blankshield (Object 0) page)) 0) ClickListener = 1
   \<and> blankshield_direct (Object 0) page =
       Returned Undefined
         (page\<lparr>objs := (objs page)
            (0 := blank_anchor\<lparr>native_listeners := [(''click'', Handler, False)]\<rparr>)\<rparr>)
   \<and> registrations (objs (world_of (blankshield_direct (Object 0) page)) 0) Handler = 1"
proof -
  have l: "length_of (Object 0) page = Undefined"
    by (simp add: length_of_def page_def blank_anchor_def plain_element_def)
  have a: "addEventListener (Ref 0) ''click'' ClickListener page =
       Returned Undefined
         (page\<lparr>objs := (objs page)
            (0 := blank_anchor\<lparr>native_listeners := [(''click'', ClickListener, False)]\<rparr>)\<rparr>)"
    by (simp add: addEventListener_def update_obj_def page_def blank_anchor_def plain_element_def)
  have b: "addEvent (Ref 0) ''click'' Handler page =
       Returned Undefined
         (page\<lparr>objs := (objs page)
            (0 := blank_anchor\<lparr>native_listeners := [(''click'', Handler, False)]\<rparr>)\<rparr>)"
    by (simp add: addEvent_def update_obj_def page_def blank_anchor_def plain_element_def)
  have z: "registrations (objs page 0) ClickListener = 0"
          "registrations (objs page 0) Handler = 0"
          "has_addEventListener (objs page 0)"
    by (simp_all add: registrations_def page_def blank_anchor_def plain_element_def)
  from blankshield_single_element [OF l] l a b z show ?thesis by auto
qed

text \<open>
  The test in the code is on \<open>typeof target.length\<close> being \<open>undefined\<close>, not on the
  \<open>length\<close> being a number. An anchor whose \<open>length\<close> property is \<open>null\<close> has no numeric
  \<open>length\<close>, yet it is taken for a collection: the loop compares \<open>0 < null\<close>, runs no round,
  and no listener is registered on the anchor.
\<close>

theorem blankshield_null_length_registers_nothing:
  "\<not> is_number (length_of (Object 0) null_length_page)
   \<and> blankshield (Object 0) null_length_page = Returned Undefined null_length_page
   \<and> registrations (objs (world_of (blankshield (Object 0) null_length_page)) 0) ClickListener = 0
   \<and> blankshield_direct (Object 0) null_length_page = Returned Undefined null_length_page"
  by (simp add: is_number_def length_of_def null_length_page_def page_def blankshield_def
        blankshield_direct_def typeof_string_def instanceof_String_def js_less_def
        registrations_def blank_anchor_def plain_element_def)

text \<open>An array of two elements: each gets the listener once, the array itself nothing.\<close>

lemma blankshield_array_example:
  "registrations (objs (world_of (blankshield (Object 9) array_page)) 0) ClickListener = 1
   \<and> registrations (objs (world_of (blankshield (Object 9) array_page)) 1) ClickListener = 1
   \<and> registrations (objs (world_of (blankshield (Object 9) array_page)) 9) ClickListener = 0"
  by (simp add: array_page_def page_def blankshield_def length_of_def typeof_string_def
        instanceof_String_def js_less_def item_at_def index_prop_def addEventListener_def
        update_obj_def registrations_def blank_anchor_def plain_element_def Let_def)

end
